theory Spec2Isabelle
  imports Main
begin

section \<open>Responsive style directive: values, string primitives, parser, cache\<close>

text \<open>
  The development embeds \<^verbatim>\<open>StyleDirective\<close> (the responsive extension of the
  framework's inline-style binding). The directive parses a style string into a property
  map (\<^verbatim>\<open>_buildStyleMap\<close>), merges it onto the cached base map and stores it under a
  key (\<^verbatim>\<open>cacheInput\<close>, the intercept installed by \<^verbatim>\<open>_buildAdapter\<close>), and hands
  the active value to the inherited style binding (\<^verbatim>\<open>_updateStyle\<close>).

  Names follow the source; a leading underscore is dropped because an Isabelle name
  cannot start with one.
\<close>

subsection \<open>Values\<close>

text \<open>
  \<^verbatim>\<open>type ngStyleMap = {[klass: string]: string}\<close> and
  \<^verbatim>\<open>type NgStyleType = string | string[] | Set<string> | ngStyleMap\<close>.
  A property map is a partial function from property names to values; the enumeration
  order of an object's properties is not modelled. \<open>Undefined\<close> and \<open>Null\<close> are
  the two values a missing argument, a missing cache entry and a missing attribute yield.
  A string is a list of characters; a character stands for a code unit below 256.
\<close>

type_synonym ngStyleMap = "string \<rightharpoonup> string"

datatype NgStyleType =
    Undefined
  | Null
  | Str string
  | Arr "string list"
  | SetV "string list"
  | Obj ngStyleMap

datatype js_error = TypeError

text \<open>Truthiness and the operator \<^verbatim>\<open>||\<close>, as \<^verbatim>\<open>_updateStyle\<close> uses them.\<close>

fun truthy :: "NgStyleType \<Rightarrow> bool" where
  "truthy Undefined = False"
| "truthy Null = False"
| "truthy (Str s) = (s \<noteq> [])"
| "truthy (Arr xs) = True"
| "truthy (SetV xs) = True"
| "truthy (Obj m) = True"

definition js_or :: "NgStyleType \<Rightarrow> NgStyleType \<Rightarrow> NgStyleType" where
  "js_or a b = (if truthy a then a else b)"

subsection \<open>String primitives\<close>

text \<open>
  \<^verbatim>\<open>s.replace(p, r)\<close> with a string pattern replaces the first occurrence of the
  pattern only. Every call site of the directive passes a one-character pattern.
\<close>

fun js_replace :: "char \<Rightarrow> string \<Rightarrow> string \<Rightarrow> string" where
  "js_replace p r [] = []"
| "js_replace p r (c # cs) = (if c = p then r @ cs else c # js_replace p r cs)"

text \<open>
  \<^verbatim>\<open>s.split(d)\<close> cuts at every occurrence of the separator; the result always has at
  least one element (\<^verbatim>\<open>"".split(";")\<close> is \<^verbatim>\<open>[""]\<close>).
\<close>

fun js_split :: "char \<Rightarrow> string \<Rightarrow> string list" where
  "js_split d [] = [[]]"
| "js_split d (c # cs) =
     (if c = d then [] # js_split d cs
      else (case js_split d cs of
              [] \<Rightarrow> [[c]]
            | f # fs \<Rightarrow> (c # f) # fs))"

text \<open>
  \<^verbatim>\<open>s.trim()\<close> removes white space and line terminators from both ends. Below 256
  these are tab, line feed, vertical tab, form feed, carriage return, space and the
  no-break space.
\<close>

definition is_ws :: "char \<Rightarrow> bool" where
  "is_ws c = (c \<in> set [CHR 0x09, CHR 0x0A, CHR 0x0B, CHR 0x0C, CHR 0x0D, CHR 0x20, CHR 0xA0])"

definition js_trim :: "string \<Rightarrow> string" where
  "js_trim s = rev (dropWhile is_ws (rev (dropWhile is_ws s)))"

subsection \<open>The parser: \<^verbatim>\<open>_buildStyleMap\<close>\<close>

text \<open>
  The callback of \<^verbatim>\<open>.map\<close>:
  \<^verbatim>\<open>
  let [key, val] = it.split(":");
  return val ? [`${(key as string).replace("'","").trim()}`, val.trim()] : null;
  \<close>
  The destructuring takes the first two elements of the split; \<open>val\<close> is undefined when
  there is no second element, and the test \<^verbatim>\<open>val ?\<close> fails for undefined and for the
  empty string. \<open>CHR 0x27\<close> is the single quote.
\<close>

definition styleEntry :: "string \<Rightarrow> (string \<times> string) option" where
  "styleEntry it =
     (case js_split CHR '':'' it of
        key # val # rest \<Rightarrow>
          (if val \<noteq> [] then Some (js_trim (js_replace CHR 0x27 [] key), js_trim val) else None)
      | _ \<Rightarrow> None)"

text \<open>
  \<^verbatim>\<open>map[key] = val\<close> on an object created by \<^verbatim>\<open>{}\<close>. The assignment creates or
  overwrites the property, except for the name \<^verbatim>\<open>__proto__\<close>: there it runs the
  inherited setter, which ignores a string and leaves the object as it was.
\<close>

definition obj_set :: "ngStyleMap \<Rightarrow> string \<Rightarrow> string \<Rightarrow> ngStyleMap" where
  "obj_set m key val = (if key = ''__proto__'' then m else m(key \<mapsto> val))"

text \<open>
  The callback of \<^verbatim>\<open>.reduce\<close>, folded from the left over the entries:
  \<^verbatim>\<open>(map, it) => { let [key, val] = it; map[key] = val; return map; }\<close>.
  Destructuring \<^verbatim>\<open>null\<close> throws a TypeError.
\<close>

fun reduceEntries :: "(string \<times> string) option list \<Rightarrow> ngStyleMap \<Rightarrow> js_error + ngStyleMap" where
  "reduceEntries [] m = Inr m"
| "reduceEntries (None # its) m = Inl TypeError"
| "reduceEntries (Some (key, val) # its) m = reduceEntries its (obj_set m key val)"

text \<open>The declaration fragments: \<^verbatim>\<open>value.replace(",", ";").split(";")\<close>.\<close>

definition fragments :: "string \<Rightarrow> string list" where
  "fragments value = js_split CHR '';'' (js_replace CHR '','' '';'' value)"

text \<open>
  \<^verbatim>\<open>
  private _buildStyleMap(styles: NgStyleType) {
    if (typeof styles === 'string') {
      return value.replace(",", ";").split(";").map(...).filter(it => it !== null).reduce(..., {});
    }
    return styles;
  }
  \<close>
\<close>

fun buildStyleMap :: "NgStyleType \<Rightarrow> js_error + NgStyleType" where
  "buildStyleMap (Str value) =
     (case reduceEntries (filter (\<lambda>it. it \<noteq> None) (map styleEntry (fragments value))) Map.empty of
        Inl e \<Rightarrow> Inl e
      | Inr m \<Rightarrow> Inr (Obj m))"
| "buildStyleMap styles = Inr styles"

subsection \<open>Collaborators that are not among the sources\<close>

text \<open>
  Modelled from the spec: the keys that the merge of \<^verbatim>\<open>extendObject\<close> takes from
  a value. The spec speaks of property maps only: the merge overwrites with every key of
  the map, and a base that is not provided contributes nothing. It does not say what an
  array, a set or a string would contribute, so \<open>own_props\<close> has no equation for them
  and nothing is derived from their keys.
\<close>

fun own_props :: "NgStyleType \<Rightarrow> ngStyleMap" where
  "own_props (Obj m) = m"
| "own_props Undefined = Map.empty"
| "own_props Null = Map.empty"

text \<open>
  Modelled from the spec: \<^verbatim>\<open>extendObject\<close>, imported from
  \<^verbatim>\<open>utils/object-extend\<close>, is not among the sources. The spec describes the merge
  as: start from a shallow copy of the base (if provided), then overwrite with every key
  of the parsed result; the later value wins for a shared key and all other base keys are
  preserved. The destination is the fresh object of the call, the sources are applied
  from left to right.
\<close>

definition extendObject :: "ngStyleMap \<Rightarrow> NgStyleType list \<Rightarrow> ngStyleMap" where
  "extendObject dest sources = foldl (\<lambda>d s. d ++ own_props s) dest sources"

text \<open>
  The directive's state: the adapter's input cache (\<^verbatim>\<open>_base.inputMap\<close>), the
  activation object (\<^verbatim>\<open>_base.mqActivation\<close>, absent until the directive listens for
  viewport changes) and the inherited style binding \<^verbatim>\<open>ngStyle\<close>, the style sink.
\<close>

record activation =
  baseKey :: string
  defaultValue :: NgStyleType

record directive =
  inputMap :: "string \<rightharpoonup> NgStyleType"
  mqActivation :: "activation option"
  ngStyle :: NgStyleType

text \<open>Reading a property of the cache: a missing key reads as undefined.\<close>

definition js_get :: "(string \<rightharpoonup> NgStyleType) \<Rightarrow> string \<Rightarrow> NgStyleType" where
  "js_get m key = (case m key of None \<Rightarrow> Undefined | Some v \<Rightarrow> v)"

text \<open>
  Modelled from the spec: the adapter class \<^verbatim>\<open>BaseFxDirectiveAdapter\<close>
  (\<^verbatim>\<open>./base-adapter\<close>) is not among the sources. The spec describes its cache as a
  mapping from the key to the normalised value, empty at first, in which
  \<^verbatim>\<open>cacheInput\<close> stores the result under the key and a later input for the same key
  replaces the earlier one; \<^verbatim>\<open>queryInput\<close> reads it. Every call of the directive
  passes \<^verbatim>\<open>cacheRaw = true\<close>.
\<close>

definition adapter_new :: directive where
  "adapter_new = \<lparr>inputMap = Map.empty, mqActivation = None, ngStyle = Undefined\<rparr>"

text \<open>
  Modelled from the spec: the adapter's own \<^verbatim>\<open>cacheInput\<close>, which the directive keeps
  as the last step of its intercept; it stores the value under the key.
\<close>

definition adapter_cacheInput :: "directive \<Rightarrow> string \<Rightarrow> NgStyleType \<Rightarrow> bool \<Rightarrow> directive" where
  "adapter_cacheInput d key source cacheRaw = d\<lparr>inputMap := (inputMap d)(key \<mapsto> source)\<rparr>"

text \<open>Modelled from the spec: the adapter's \<^verbatim>\<open>queryInput\<close>, the cached value of a key.\<close>

definition queryInput :: "directive \<Rightarrow> string \<Rightarrow> NgStyleType" where
  "queryInput d key = js_get (inputMap d) key"

text \<open>
  Modelled from the spec: the breakpoint registry and the viewport monitor are external.
  A breakpoint of the registry is listed in registration order, together with the answer
  of the monitor for it at the moment of the event.
\<close>

record breakpoint =
  suffix :: string
  matches :: bool

text \<open>
  Modelled from the spec: the activation object behind \<^verbatim>\<open>_base.mqActivation\<close> and
  its getter \<^verbatim>\<open>activatedInput\<close> are not among the sources. The spec describes the
  resolution as a single pass over the ordered breakpoint list that picks the
  highest-index matching entry with a cached value, else the base; a later registration
  overrides an earlier match. The cache key of a breakpoint is the base key followed by
  the breakpoint's suffix.
\<close>

fun activatedInputKey :: "string \<Rightarrow> breakpoint list \<Rightarrow> (string \<rightharpoonup> NgStyleType) \<Rightarrow> string option \<Rightarrow> string option" where
  "activatedInputKey base [] cache found = found"
| "activatedInputKey base (bp # bps) cache found =
     activatedInputKey base bps cache
       (if matches bp \<and> cache (base @ suffix bp) \<noteq> None then Some (base @ suffix bp) else found)"

text \<open>
  Modelled from the spec: the getter \<^verbatim>\<open>activatedInput\<close>, the cached value of the
  breakpoint the pass selects, else the cached base map (the default value of the
  subscription when no base is cached).
\<close>

definition activatedInput :: "activation \<Rightarrow> breakpoint list \<Rightarrow> (string \<rightharpoonup> NgStyleType) \<Rightarrow> NgStyleType" where
  "activatedInput a monitor cache =
     (case activatedInputKey (baseKey a) monitor cache None of
        Some key \<Rightarrow> js_get cache key
      | None \<Rightarrow> (case cache (baseKey a) of Some v \<Rightarrow> v | None \<Rightarrow> defaultValue a))"

text \<open>
  Modelled from the spec: \<^verbatim>\<open>listenForMediaQueryChanges\<close> of the adapter is not among
  the sources. After the first subscription the instance is listening: the activation
  object exists, with the base key and the default value of the call.
\<close>

definition listenForMediaQueryChanges :: "directive \<Rightarrow> string \<Rightarrow> NgStyleType \<Rightarrow> directive" where
  "listenForMediaQueryChanges d key dflt = d\<lparr>mqActivation := Some \<lparr>baseKey = key, defaultValue = dflt\<rparr>\<rparr>"

subsection \<open>The directive\<close>

text \<open>
  The intercept that \<^verbatim>\<open>_buildAdapter\<close> installs over the adapter's
  \<^verbatim>\<open>cacheInput\<close>:
  \<^verbatim>\<open>
  this._base.cacheInput = (key?: string, source?: any, cacheRaw = false, merge = true) => {
    let styles = this._buildStyleMap(source);
    if (merge) {
      styles = extendObject({}, this._base.inputMap['style'], styles);
    }
    cacheInput(key, styles, cacheRaw);
  };
  \<close>
\<close>

definition cacheInput :: "directive \<Rightarrow> string \<Rightarrow> NgStyleType \<Rightarrow> bool \<Rightarrow> bool \<Rightarrow> js_error + directive" where
  "cacheInput d key source cacheRaw merge =
     (case buildStyleMap source of
        Inl e \<Rightarrow> Inl e
      | Inr styles \<Rightarrow>
          Inr (adapter_cacheInput d key
                 (if merge then Obj (extendObject Map.empty [js_get (inputMap d) ''style'', styles])
                  else styles)
                 cacheRaw))"

text \<open>\<^verbatim>\<open>_buildAdapter\<close>: a new adapter, with the intercept above in place.\<close>

definition buildAdapter :: directive where
  "buildAdapter = adapter_new"

text \<open>
  The constructor builds the adapter and caches the element's inline style, the result of
  \<^verbatim>\<open>getAttribute("style")\<close> (a string, or \<open>Null\<close> when the attribute is absent), as
  the base input.
\<close>

definition new_StyleDirective :: "NgStyleType \<Rightarrow> js_error + directive" where
  "new_StyleDirective inlineStyle = cacheInput buildAdapter ''style'' inlineStyle True True"

text \<open>
  The input setters. \<^verbatim>\<open>styleBase\<close> caches under \<^verbatim>\<open>'style'\<close> and assigns the
  cached base to \<^verbatim>\<open>ngStyle\<close>; the breakpoint setters (\<^verbatim>\<open>ngStyle.xs\<close> and the
  deprecated \<^verbatim>\<open>style.xs\<close> share a key, and so on for the other eight suffixes) only
  cache.
\<close>

definition styleBase :: "directive \<Rightarrow> NgStyleType \<Rightarrow> js_error + directive" where
  "styleBase d val =
     (case cacheInput d ''style'' val True True of
        Inl e \<Rightarrow> Inl e
      | Inr d' \<Rightarrow> Inr (d'\<lparr>ngStyle := js_get (inputMap d') ''style''\<rparr>))"

definition ngStyleXs :: "directive \<Rightarrow> NgStyleType \<Rightarrow> js_error + directive" where
  "ngStyleXs d val = cacheInput d ''styleXs'' val True True"

text \<open>
  \<^verbatim>\<open>
  private _updateStyle(value?: NgStyleType) {
    let style = value || this._base.queryInput("style") || '';
    if (this._base.mqActivation) {
      style = this._base.mqActivation.activatedInput;
    }
    this.ngStyle = style;
  }
  \<close>
  The second argument is the state of the viewport monitor that the activation object
  consults.
\<close>

definition updateStyle :: "directive \<Rightarrow> breakpoint list \<Rightarrow> NgStyleType \<Rightarrow> directive" where
  "updateStyle d monitor value =
     (let style = js_or (js_or value (queryInput d ''style'')) (Str [])
      in d\<lparr>ngStyle := (case mqActivation d of
                         Some a \<Rightarrow> activatedInput a monitor (inputMap d)
                       | None \<Rightarrow> style)\<rparr>)"

text \<open>
  \<^verbatim>\<open>ngOnInit\<close> subscribes with the base key \<^verbatim>\<open>'style'\<close> and the default
  \<^verbatim>\<open>''\<close>; the subscriber handles a viewport change by
  \<^verbatim>\<open>this._updateStyle(changes.value)\<close>.
\<close>

definition ngOnInit :: "directive \<Rightarrow> directive" where
  "ngOnInit d = listenForMediaQueryChanges d ''style'' (Str [])"

definition onMediaQueryChange :: "directive \<Rightarrow> breakpoint list \<Rightarrow> NgStyleType \<Rightarrow> directive" where
  "onMediaQueryChange d monitor changesValue = updateStyle d monitor changesValue"

text \<open>A run of cache calls as the input setters make them, stopping at the first error.\<close>

fun cacheInputs :: "directive \<Rightarrow> (string \<times> NgStyleType) list \<Rightarrow> js_error + directive" where
  "cacheInputs d [] = Inr d"
| "cacheInputs d ((key, source) # calls) =
     (case cacheInput d key source True True of
        Inl e \<Rightarrow> Inl e
      | Inr d' \<Rightarrow> cacheInputs d' calls)"

section \<open>The parser\<close>

lemmas parser_defs = fragments_def styleEntry_def js_trim_def is_ws_def obj_set_def

text \<open>
  After the filter no entry is null, so the fold never meets the failing destructuring:
  it is the plain left fold of the entries that the fragments yield.
\<close>

lemma reduceEntries_filter:
  "reduceEntries (filter (\<lambda>it. it \<noteq> None) es) m =
     Inr (foldl (\<lambda>m (key, val). obj_set m key val) m (List.map_filter id es))"
proof (induction es arbitrary: m)
  case Nil
  show ?case by simp
next
  case (Cons e es)
  show ?case
  proof (cases e)
    case None
    with Cons show ?thesis by simp
  next
    case (Some kv)
    with Cons show ?thesis by (cases kv) simp
  qed
qed

lemma map_filter_id_map: "List.map_filter id (map f xs) = List.map_filter f xs"
  by (induction xs) (simp_all split: option.split)

lemma buildStyleMap_Str:
  "buildStyleMap (Str value) =
     Inr (Obj (foldl (\<lambda>m (key, val). obj_set m key val) Map.empty
                 (List.map_filter styleEntry (fragments value))))"
  by (simp only: buildStyleMap.simps reduceEntries_filter map_filter_id_map sum.case)

lemma js_split_no_sep: "d \<notin> set s \<Longrightarrow> js_split d s = [s]"
  by (induction s) auto

lemma styleEntry_no_colon: "CHR '':'' \<notin> set it \<Longrightarrow> styleEntry it = None"
  by (simp add: styleEntry_def js_split_no_sep)

lemma styleEntry_empty_val: "js_split CHR '':'' it = key # [] # rest \<Longrightarrow> styleEntry it = None"
  by (simp add: styleEntry_def)

lemma cacheInput_total: "\<exists>d'. cacheInput d key src cacheRaw merge = Inr d'"
proof (cases src)
  case (Str s)
  then show ?thesis by (simp add: cacheInput_def buildStyleMap_Str del: buildStyleMap.simps)
qed (simp_all add: cacheInput_def)

text \<open>
  Claim C3 (comma as a declaration separator). The claim says that every comma of a style
  string, not just the first, separates declarations. The parser converts with
  \<^verbatim>\<open>value.replace(",", ";")\<close>, which replaces the first comma only: in
  \<^verbatim>\<open>"a:1,b:2,c:3"\<close> the second comma stays inside the second fragment, whose value
  becomes \<^verbatim>\<open>"2,c"\<close>, and no property \<^verbatim>\<open>c\<close> is produced.
\<close>

theorem comma_first_only:
  "buildStyleMap (Str ''a:1,b:2,c:3'') = Inr (Obj [''a'' \<mapsto> ''1'', ''b'' \<mapsto> ''2,c''])"
  by (simp add: parser_defs)

text \<open>
  Claim C4 (fragment splitting). The claim says that a fragment is split on its first
  colon only and that the value is the entire text after it. The parser splits on every
  colon and keeps the first two parts, so the value ends before the second colon: for
  \<^verbatim>\<open>"background:url(http://x)"\<close> the value is \<^verbatim>\<open>"url(http"\<close>.
\<close>

theorem value_cut_at_second_colon:
  "buildStyleMap (Str ''background:url(http://x)'') = Inr (Obj [''background'' \<mapsto> ''url(http''])"
  by (simp add: parser_defs)

text \<open>
  Claim C5 (key and value cleanup). The claim says that every single quote is removed
  from a key, and that key and value are trimmed. The parser removes quotes with
  \<^verbatim>\<open>key.replace("'","")\<close>, which removes the first quote only: for the quoted key
  of \<^verbatim>\<open>"'color': red "\<close> the closing quote stays in the key. The trimming of the
  value is as claimed.
\<close>

theorem quote_first_only:
  "buildStyleMap (Str (CHR 0x27 # ''color'' @ [CHR 0x27] @ '': red '')) =
     Inr (Obj [''color'' @ [CHR 0x27] \<mapsto> ''red''])"
  by (simp add: parser_defs)

text \<open>
  Claim C6 (permissive parsing). For every style string the parser returns a property
  map and raises no error: the map is the left fold of exactly those fragments that
  yield an entry. A fragment with no colon, or with an empty value after the split,
  yields no entry and so is dropped. Caching an input never raises either.
\<close>

theorem buildStyleMap_permissive:
  "buildStyleMap (Str value) =
     Inr (Obj (foldl (\<lambda>m (key, val). obj_set m key val) Map.empty
                 (List.map_filter styleEntry (fragments value))))
   \<and> (CHR '':'' \<notin> set it \<or> (\<exists>key rest. js_split CHR '':'' it = key # [] # rest)
        \<longrightarrow> styleEntry it = None)
   \<and> (\<exists>d'. cacheInput d key src True merge = Inr d')"
  using buildStyleMap_Str styleEntry_no_colon styleEntry_empty_val cacheInput_total by blast

theorem buildStyleMap_permissive_witness:
  "buildStyleMap (Str ''color:red;justcolor'') = Inr (Obj [''color'' \<mapsto> ''red''])
   \<and> CHR '':'' \<notin> set ''justcolor'' \<and> styleEntry ''justcolor'' = None
   \<and> js_split CHR '':'' ''width:'' = [''width'', []] \<and> styleEntry ''width:'' = None"
proof -
  have a: "CHR '':'' \<notin> set ''justcolor''" by simp
  have b: "js_split CHR '':'' ''width:'' = [''width'', []]" by simp
  have c: "List.map_filter styleEntry (fragments ''color:red;justcolor'') = [(''color'', ''red'')]"
    by (simp add: parser_defs)
  from buildStyleMap_permissive [of "''color:red;justcolor''" "''justcolor''"] a
  have 1: "buildStyleMap (Str ''color:red;justcolor'') = Inr (Obj [''color'' \<mapsto> ''red''])"
    and 2: "styleEntry ''justcolor'' = None"
    by (simp_all add: c obj_set_def)
  from buildStyleMap_permissive [of _ "''width:''"] b
  have 3: "styleEntry ''width:'' = None" by blast
  from 1 2 3 a b show ?thesis by simp
qed

section \<open>The cache\<close>

lemmas cache_defs = cacheInput_def adapter_cacheInput_def extendObject_def js_get_def

lemma buildStyleMap_Inr_cases: "\<exists>styles. buildStyleMap src = Inr styles"
proof (cases src)
  case (Str s)
  then show ?thesis by (simp add: buildStyleMap_Str del: buildStyleMap.simps)
qed simp_all

lemma extendObject_two: "extendObject Map.empty [a, b] = own_props a ++ own_props b"
  by (simp add: extendObject_def)

lemma map_add_case: "(m ++ n) p = (case n p of Some v \<Rightarrow> Some v | None \<Rightarrow> m p)"
  by (simp add: map_add_def)

text \<open>What one merging call of the intercept does to the state.\<close>

lemma cacheInput_merge:
  "buildStyleMap src = Inr styles \<Longrightarrow>
   cacheInput d key src cacheRaw True =
     Inr (d\<lparr>inputMap := (inputMap d)(key \<mapsto> Obj (own_props (js_get (inputMap d) ''style'') ++ own_props styles))\<rparr>)"
  by (simp add: cacheInput_def adapter_cacheInput_def extendObject_two)

lemma cacheInput_frame:
  assumes "cacheInput d key src cacheRaw merge = Inr d'" and "k \<noteq> key"
  shows "inputMap d' k = inputMap d k"
proof -
  obtain styles where "buildStyleMap src = Inr styles"
    using buildStyleMap_Inr_cases by blast
  with assms show ?thesis
    by (cases merge) (auto simp: cacheInput_def adapter_cacheInput_def)
qed

lemma cacheInput_others:
  assumes "cacheInput d key src cacheRaw merge = Inr d'"
  shows "mqActivation d' = mqActivation d \<and> ngStyle d' = ngStyle d"
proof -
  obtain styles where "buildStyleMap src = Inr styles"
    using buildStyleMap_Inr_cases by blast
  with assms show ?thesis
    by (cases merge) (auto simp: cacheInput_def adapter_cacheInput_def)
qed

lemma cacheInput_dom:
  assumes "cacheInput d key src cacheRaw merge = Inr d'"
  shows "dom (inputMap d') = insert key (dom (inputMap d))"
proof -
  obtain styles where "buildStyleMap src = Inr styles"
    using buildStyleMap_Inr_cases by blast
  with assms show ?thesis
    by (cases merge) (auto simp: cacheInput_def adapter_cacheInput_def)
qed

text \<open>
  For a key other than the base key, the value cached earlier under that key has no
  influence on the outcome of the call.
\<close>

lemma cacheInput_forgets:
  assumes "key \<noteq> ''style''"
  shows "cacheInput (d\<lparr>inputMap := (inputMap d)(key := earlier)\<rparr>) key src cacheRaw merge =
         cacheInput d key src cacheRaw merge"
proof -
  obtain styles where s: "buildStyleMap src = Inr styles"
    using buildStyleMap_Inr_cases by blast
  from assms have "js_get ((inputMap d)(key := earlier)) ''style'' = js_get (inputMap d) ''style''"
    by (simp add: js_get_def)
  with s show ?thesis
    by (simp add: cacheInput_def adapter_cacheInput_def)
qed

text \<open>
  Claim C2 (first-write merge). Caching an input under a breakpoint key merges it
  against the base map as cached at that moment, and a later call for the base key
  leaves every other cache entry, in particular the breakpoint's, as it was.
\<close>

theorem first_write_merge:
  assumes "key \<noteq> ''style''"
    and "cacheInput d key src True True = Inr d1"
    and "cacheInput d1 ''style'' base True merge' = Inr d2"
  shows "(\<exists>styles. buildStyleMap src = Inr styles
            \<and> inputMap d1 key = Some (Obj (extendObject Map.empty [js_get (inputMap d) ''style'', styles])))
       \<and> inputMap d2 key = inputMap d1 key
       \<and> (\<forall>k. k \<noteq> ''style'' \<longrightarrow> inputMap d2 k = inputMap d1 k)"
proof -
  obtain styles where s: "buildStyleMap src = Inr styles"
    using buildStyleMap_Inr_cases by blast
  from assms(2) have "inputMap d1 key = Some (Obj (extendObject Map.empty [js_get (inputMap d) ''style'', styles]))"
    by (auto simp: cacheInput_merge [OF s] extendObject_two)
  with s have 1: "\<exists>styles. buildStyleMap src = Inr styles
            \<and> inputMap d1 key = Some (Obj (extendObject Map.empty [js_get (inputMap d) ''style'', styles]))"
    by blast
  have 2: "\<forall>k. k \<noteq> ''style'' \<longrightarrow> inputMap d2 k = inputMap d1 k"
    using cacheInput_frame [OF assms(3)] by blast
  from 1 2 assms(1) show ?thesis by blast
qed

text \<open>
  The breakpoint input is cached over the base \<^verbatim>\<open>{margin: "1"}\<close>; the base is then
  replaced by \<^verbatim>\<open>"margin:2"\<close>; the breakpoint's map still holds \<^verbatim>\<open>margin: "1"\<close>.
\<close>

theorem first_write_merge_witness:
  "''styleXs'' \<noteq> ''style''
   \<and> cacheInput \<lparr>inputMap = [''style'' \<mapsto> Obj [''margin'' \<mapsto> ''1'']], mqActivation = None, ngStyle = Undefined\<rparr>
        ''styleXs'' (Str ''color:red'') True True =
     Inr \<lparr>inputMap = [''style'' \<mapsto> Obj [''margin'' \<mapsto> ''1''],
                      ''styleXs'' \<mapsto> Obj [''margin'' \<mapsto> ''1'', ''color'' \<mapsto> ''red'']],
          mqActivation = None, ngStyle = Undefined\<rparr>
   \<and> cacheInput \<lparr>inputMap = [''style'' \<mapsto> Obj [''margin'' \<mapsto> ''1''],
                      ''styleXs'' \<mapsto> Obj [''margin'' \<mapsto> ''1'', ''color'' \<mapsto> ''red'']],
          mqActivation = None, ngStyle = Undefined\<rparr>
        ''style'' (Str ''margin:2'') True True =
     Inr \<lparr>inputMap = [''styleXs'' \<mapsto> Obj [''margin'' \<mapsto> ''1'', ''color'' \<mapsto> ''red''],
                      ''style'' \<mapsto> Obj [''margin'' \<mapsto> ''2'']],
          mqActivation = None, ngStyle = Undefined\<rparr>
   \<and> inputMap \<lparr>inputMap = [''styleXs'' \<mapsto> Obj [''margin'' \<mapsto> ''1'', ''color'' \<mapsto> ''red''],
                      ''style'' \<mapsto> Obj [''margin'' \<mapsto> ''2'']],
          mqActivation = None, ngStyle = Undefined\<rparr> ''styleXs''
       = Some (Obj [''margin'' \<mapsto> ''1'', ''color'' \<mapsto> ''red''])"
proof -
  have k: "''styleXs'' \<noteq> ''style''" by simp
  have t: "[''style'' \<mapsto> Obj [''margin'' \<mapsto> ''1''],
            ''styleXs'' \<mapsto> Obj [''margin'' \<mapsto> ''1'', ''color'' \<mapsto> ''red''],
            ''style'' \<mapsto> Obj [''margin'' \<mapsto> ''2'']]
         = [''styleXs'' \<mapsto> Obj [''margin'' \<mapsto> ''1'', ''color'' \<mapsto> ''red''],
            ''style'' \<mapsto> Obj [''margin'' \<mapsto> ''2'']]"
    by (rule ext) simp
  have a: "cacheInput \<lparr>inputMap = [''style'' \<mapsto> Obj [''margin'' \<mapsto> ''1'']], mqActivation = None, ngStyle = Undefined\<rparr>
        ''styleXs'' (Str ''color:red'') True True =
     Inr \<lparr>inputMap = [''style'' \<mapsto> Obj [''margin'' \<mapsto> ''1''],
                      ''styleXs'' \<mapsto> Obj [''margin'' \<mapsto> ''1'', ''color'' \<mapsto> ''red'']],
          mqActivation = None, ngStyle = Undefined\<rparr>"
    by (simp add: cache_defs parser_defs)
  have b: "cacheInput \<lparr>inputMap = [''style'' \<mapsto> Obj [''margin'' \<mapsto> ''1''],
                      ''styleXs'' \<mapsto> Obj [''margin'' \<mapsto> ''1'', ''color'' \<mapsto> ''red'']],
          mqActivation = None, ngStyle = Undefined\<rparr>
        ''style'' (Str ''margin:2'') True True =
     Inr \<lparr>inputMap = [''styleXs'' \<mapsto> Obj [''margin'' \<mapsto> ''1'', ''color'' \<mapsto> ''red''],
                      ''style'' \<mapsto> Obj [''margin'' \<mapsto> ''2'']],
          mqActivation = None, ngStyle = Undefined\<rparr>"
    by (simp add: cache_defs parser_defs t)
  from first_write_merge [OF k a b] a b show ?thesis by simp
qed

text \<open>
  Claim C7 (merge precedence). When a base map is cached and the input string parses to
  a map, the value cached by the call is the merge of the two: at every property name the
  parsed value if there is one, else the base's value.
\<close>

theorem merge_precedence:
  assumes "inputMap d ''style'' = Some (Obj base)"
    and "buildStyleMap (Str value) = Inr (Obj parsed)"
  shows "\<exists>merged.
           cacheInput d key (Str value) True True =
             Inr (d\<lparr>inputMap := (inputMap d)(key \<mapsto> Obj merged)\<rparr>)
         \<and> merged = extendObject Map.empty [Obj base, Obj parsed]
         \<and> (\<forall>p. merged p = (case parsed p of Some v \<Rightarrow> Some v | None \<Rightarrow> base p))"
proof -
  from assms(1) have g: "js_get (inputMap d) ''style'' = Obj base"
    by (simp add: js_get_def)
  have "cacheInput d key (Str value) True True =
          Inr (d\<lparr>inputMap := (inputMap d)(key \<mapsto> Obj (base ++ parsed))\<rparr>)"
    using cacheInput_merge [OF assms(2)] g by simp
  moreover have "base ++ parsed = extendObject Map.empty [Obj base, Obj parsed]"
    by (simp add: extendObject_two)
  moreover have "\<forall>p. (base ++ parsed) p = (case parsed p of Some v \<Rightarrow> Some v | None \<Rightarrow> base p)"
    by (simp add: map_add_case)
  ultimately show ?thesis by blast
qed

theorem merge_precedence_witness:
  "cacheInput \<lparr>inputMap = [''style'' \<mapsto> Obj [''a'' \<mapsto> ''1'', ''b'' \<mapsto> ''1'']],
                mqActivation = None, ngStyle = Undefined\<rparr> ''styleXs'' (Str ''b:2'') True True =
     Inr \<lparr>inputMap = [''style'' \<mapsto> Obj [''a'' \<mapsto> ''1'', ''b'' \<mapsto> ''1''],
                      ''styleXs'' \<mapsto> Obj [''a'' \<mapsto> ''1'', ''b'' \<mapsto> ''2'']],
          mqActivation = None, ngStyle = Undefined\<rparr>
   \<and> buildStyleMap (Str ''b:2'') = Inr (Obj [''b'' \<mapsto> ''2''])
   \<and> extendObject Map.empty [Obj [''a'' \<mapsto> ''1'', ''b'' \<mapsto> ''1''], Obj [''b'' \<mapsto> ''2'']]
       = [''a'' \<mapsto> ''1'', ''b'' \<mapsto> ''2'']"
proof -
  let ?d = "\<lparr>inputMap = [''style'' \<mapsto> Obj [''a'' \<mapsto> ''1'', ''b'' \<mapsto> ''1'']],
                mqActivation = None, ngStyle = Undefined\<rparr>"
  have h1: "inputMap ?d ''style'' = Some (Obj [''a'' \<mapsto> ''1'', ''b'' \<mapsto> ''1''])" by simp
  have h2: "buildStyleMap (Str ''b:2'') = Inr (Obj [''b'' \<mapsto> ''2''])"
    by (simp add: parser_defs)
  have e: "extendObject Map.empty [Obj [''a'' \<mapsto> ''1'', ''b'' \<mapsto> ''1''], Obj [''b'' \<mapsto> ''2'']]
       = [''a'' \<mapsto> ''1'', ''b'' \<mapsto> ''2'']"
    by (simp add: extendObject_def)
  from merge_precedence [OF h1 h2, of "''styleXs''"] e h2 show ?thesis by simp
qed

text \<open>
  Claim C8 (input replacement), as the claim states it, fails for the base key: the
  constructor caches an empty base, the base setter is given \<^verbatim>\<open>"a:1"\<close> and then
  \<^verbatim>\<open>"b:2"\<close>, and the property \<^verbatim>\<open>a\<close> of the first input is still in the cached base
  map, because every input, the base included, is merged onto the base cached before.
\<close>

theorem base_keys_survive:
  "new_StyleDirective Null =
     Inr \<lparr>inputMap = [''style'' \<mapsto> Obj Map.empty], mqActivation = None, ngStyle = Undefined\<rparr>
   \<and> styleBase \<lparr>inputMap = [''style'' \<mapsto> Obj Map.empty], mqActivation = None, ngStyle = Undefined\<rparr>
        (Str ''a:1'') =
     Inr \<lparr>inputMap = [''style'' \<mapsto> Obj [''a'' \<mapsto> ''1'']], mqActivation = None,
          ngStyle = Obj [''a'' \<mapsto> ''1'']\<rparr>
   \<and> styleBase \<lparr>inputMap = [''style'' \<mapsto> Obj [''a'' \<mapsto> ''1'']], mqActivation = None,
          ngStyle = Obj [''a'' \<mapsto> ''1'']\<rparr> (Str ''b:2'') =
     Inr \<lparr>inputMap = [''style'' \<mapsto> Obj [''a'' \<mapsto> ''1'', ''b'' \<mapsto> ''2'']], mqActivation = None,
          ngStyle = Obj [''a'' \<mapsto> ''1'', ''b'' \<mapsto> ''2'']\<rparr>"
  by (simp add: new_StyleDirective_def styleBase_def buildAdapter_def adapter_new_def
      cache_defs parser_defs)

text \<open>
  Claim C8, amended. The cache holds at most one value per key, and a call writes the
  entry of its key only. For a breakpoint key the later input replaces the earlier one
  entirely: the outcome of the call does not depend on the value cached under that key
  before. For the base key the later input is merged onto the earlier base map: a
  property the later input sets takes the later value, and every other property of the
  earlier base map survives.
\<close>

theorem input_replacement_amended:
  "(\<forall>styles. buildStyleMap src = Inr styles \<longrightarrow>
      cacheInput d key src True True =
        Inr (d\<lparr>inputMap := (inputMap d)(key \<mapsto>
               Obj (extendObject Map.empty [js_get (inputMap d) ''style'', styles]))\<rparr>))
   \<and> (inputMap d ''style'' = Some (Obj base) \<and> buildStyleMap src = Inr (Obj later) \<longrightarrow>
        (\<exists>m. cacheInput d key src True True =
                Inr (d\<lparr>inputMap := (inputMap d)(key \<mapsto> Obj m)\<rparr>)
           \<and> (\<forall>p. m p = (case later p of Some v \<Rightarrow> Some v | None \<Rightarrow> base p))))
   \<and> (key \<noteq> ''style'' \<longrightarrow>
      cacheInput (d\<lparr>inputMap := (inputMap d)(key := earlier)\<rparr>) key src True True =
      cacheInput d key src True True)
   \<and> (\<forall>d' k. cacheInput d key src True True = Inr d' \<and> k \<noteq> key \<longrightarrow> inputMap d' k = inputMap d k)"
proof -
  have W: "\<forall>styles. buildStyleMap src = Inr styles \<longrightarrow>
      cacheInput d key src True True =
        Inr (d\<lparr>inputMap := (inputMap d)(key \<mapsto>
               Obj (extendObject Map.empty [js_get (inputMap d) ''style'', styles]))\<rparr>)"
    by (simp add: cacheInput_merge extendObject_two)
  have B: "inputMap d ''style'' = Some (Obj base) \<and> buildStyleMap src = Inr (Obj later) \<longrightarrow>
        (\<exists>m. cacheInput d key src True True =
                Inr (d\<lparr>inputMap := (inputMap d)(key \<mapsto> Obj m)\<rparr>)
           \<and> (\<forall>p. m p = (case later p of Some v \<Rightarrow> Some v | None \<Rightarrow> base p)))"
  proof
    assume h: "inputMap d ''style'' = Some (Obj base) \<and> buildStyleMap src = Inr (Obj later)"
    then have g: "js_get (inputMap d) ''style'' = Obj base" by (simp add: js_get_def)
    from h have "cacheInput d key src True True =
                Inr (d\<lparr>inputMap := (inputMap d)(key \<mapsto> Obj (base ++ later))\<rparr>)"
      using cacheInput_merge [of src "Obj later"] g by simp
    moreover have "\<forall>p. (base ++ later) p = (case later p of Some v \<Rightarrow> Some v | None \<Rightarrow> base p)"
      by (simp add: map_add_case)
    ultimately show "\<exists>m. cacheInput d key src True True =
                Inr (d\<lparr>inputMap := (inputMap d)(key \<mapsto> Obj m)\<rparr>)
           \<and> (\<forall>p. m p = (case later p of Some v \<Rightarrow> Some v | None \<Rightarrow> base p))" by blast
  qed
  have A: "key \<noteq> ''style'' \<longrightarrow>
      cacheInput (d\<lparr>inputMap := (inputMap d)(key := earlier)\<rparr>) key src True True =
      cacheInput d key src True True"
    using cacheInput_forgets by blast
  have C: "\<forall>d' k. cacheInput d key src True True = Inr d' \<and> k \<noteq> key \<longrightarrow> inputMap d' k = inputMap d k"
    using cacheInput_frame by blast
  from W B A C show ?thesis by blast
qed

text \<open>
  With the base \<^verbatim>\<open>{a: "1"}\<close> cached, the input \<^verbatim>\<open>"b:2"\<close> is cached under the
  breakpoint key as \<^verbatim>\<open>{a: "1", b: "2"}\<close>, whether or not \<^verbatim>\<open>{z: "9"}\<close> was cached
  there before; cached under the base key it keeps the earlier base property \<^verbatim>\<open>a\<close>.
\<close>

theorem input_replacement_amended_witness:
  "''styleXs'' \<noteq> ''style''
   \<and> buildStyleMap (Str ''b:2'') = Inr (Obj [''b'' \<mapsto> ''2''])
   \<and> cacheInput \<lparr>inputMap = [''style'' \<mapsto> Obj [''a'' \<mapsto> ''1'']],
                  mqActivation = None, ngStyle = Undefined\<rparr> ''styleXs'' (Str ''b:2'') True True =
       Inr \<lparr>inputMap = [''style'' \<mapsto> Obj [''a'' \<mapsto> ''1''], ''styleXs'' \<mapsto> Obj [''a'' \<mapsto> ''1'', ''b'' \<mapsto> ''2'']],
            mqActivation = None, ngStyle = Undefined\<rparr>
   \<and> cacheInput \<lparr>inputMap = [''style'' \<mapsto> Obj [''a'' \<mapsto> ''1''], ''styleXs'' \<mapsto> Obj [''z'' \<mapsto> ''9'']],
                  mqActivation = None, ngStyle = Undefined\<rparr> ''styleXs'' (Str ''b:2'') True True =
       Inr \<lparr>inputMap = [''style'' \<mapsto> Obj [''a'' \<mapsto> ''1''], ''styleXs'' \<mapsto> Obj [''a'' \<mapsto> ''1'', ''b'' \<mapsto> ''2'']],
            mqActivation = None, ngStyle = Undefined\<rparr>
   \<and> cacheInput \<lparr>inputMap = [''style'' \<mapsto> Obj [''a'' \<mapsto> ''1'']],
                  mqActivation = None, ngStyle = Undefined\<rparr> ''style'' (Str ''b:2'') True True =
       Inr \<lparr>inputMap = [''style'' \<mapsto> Obj [''a'' \<mapsto> ''1'', ''b'' \<mapsto> ''2'']],
            mqActivation = None, ngStyle = Undefined\<rparr>"
proof -
  let ?d = "\<lparr>inputMap = [''style'' \<mapsto> Obj [''a'' \<mapsto> ''1'']], mqActivation = None, ngStyle = Undefined\<rparr>"
  have k: "''styleXs'' \<noteq> ''style''" by simp
  have h1: "inputMap ?d ''style'' = Some (Obj [''a'' \<mapsto> ''1''])" by simp
  have h2: "buildStyleMap (Str ''b:2'') = Inr (Obj [''b'' \<mapsto> ''2''])"
    by (simp add: parser_defs)
  have e: "extendObject Map.empty [Obj [''a'' \<mapsto> ''1''], Obj [''b'' \<mapsto> ''2'']] = [''a'' \<mapsto> ''1'', ''b'' \<mapsto> ''2'']"
    by (simp add: extendObject_def)
  note xs = input_replacement_amended [of "Str ''b:2''" ?d "''styleXs''" "[''a'' \<mapsto> ''1'']" "[''b'' \<mapsto> ''2'']"
      "Some (Obj [''z'' \<mapsto> ''9''])"]
  note bs = input_replacement_amended [of "Str ''b:2''" ?d "''style''" "[''a'' \<mapsto> ''1'']" "[''b'' \<mapsto> ''2'']"]
  from xs h2 have x: "cacheInput ?d ''styleXs'' (Str ''b:2'') True True =
       Inr \<lparr>inputMap = [''style'' \<mapsto> Obj [''a'' \<mapsto> ''1''], ''styleXs'' \<mapsto> Obj [''a'' \<mapsto> ''1'', ''b'' \<mapsto> ''2'']],
            mqActivation = None, ngStyle = Undefined\<rparr>"
    by (simp add: js_get_def e)
  from xs k x have z: "cacheInput \<lparr>inputMap = [''style'' \<mapsto> Obj [''a'' \<mapsto> ''1''], ''styleXs'' \<mapsto> Obj [''z'' \<mapsto> ''9'']],
                  mqActivation = None, ngStyle = Undefined\<rparr> ''styleXs'' (Str ''b:2'') True True =
       Inr \<lparr>inputMap = [''style'' \<mapsto> Obj [''a'' \<mapsto> ''1''], ''styleXs'' \<mapsto> Obj [''a'' \<mapsto> ''1'', ''b'' \<mapsto> ''2'']],
            mqActivation = None, ngStyle = Undefined\<rparr>"
    by simp
  from bs h2 have y: "cacheInput ?d ''style'' (Str ''b:2'') True True =
       Inr \<lparr>inputMap = [''style'' \<mapsto> Obj [''a'' \<mapsto> ''1'', ''b'' \<mapsto> ''2'']],
            mqActivation = None, ngStyle = Undefined\<rparr>"
    by (simp add: js_get_def e)
  from k h2 x z y show ?thesis by simp
qed

text \<open>
  Claim C9 (type preservation). The claim says that an array or a set of tokens keeps
  its type, also when the cached result is merged onto a non-empty base. The parser does
  return the array unchanged, but the intercept then replaces it by the result of
  \<^verbatim>\<open>extendObject({}, this._base.inputMap['style'], styles)\<close>: what is cached under the
  key is the fresh plain object of the merge, not the array; the same holds for a set.
\<close>

theorem array_not_preserved:
  "buildStyleMap (Arr [''a'', ''b'']) = Inr (Arr [''a'', ''b''])
   \<and> cacheInput \<lparr>inputMap = [''style'' \<mapsto> Obj [''color'' \<mapsto> ''red'']], mqActivation = None, ngStyle = Undefined\<rparr>
        ''styleXs'' (Arr [''a'', ''b'']) True True =
      Inr \<lparr>inputMap = [''style'' \<mapsto> Obj [''color'' \<mapsto> ''red''],
                       ''styleXs'' \<mapsto> Obj (extendObject Map.empty [Obj [''color'' \<mapsto> ''red''], Arr [''a'', ''b'']])],
           mqActivation = None, ngStyle = Undefined\<rparr>
   \<and> Obj (extendObject Map.empty [Obj [''color'' \<mapsto> ''red''], Arr [''a'', ''b'']]) \<noteq> Arr [''a'', ''b'']
   \<and> buildStyleMap (SetV [''a'', ''b'']) = Inr (SetV [''a'', ''b''])
   \<and> cacheInput \<lparr>inputMap = [''style'' \<mapsto> Obj [''color'' \<mapsto> ''red'']], mqActivation = None, ngStyle = Undefined\<rparr>
        ''styleXs'' (SetV [''a'', ''b'']) True True =
      Inr \<lparr>inputMap = [''style'' \<mapsto> Obj [''color'' \<mapsto> ''red''],
                       ''styleXs'' \<mapsto> Obj (extendObject Map.empty [Obj [''color'' \<mapsto> ''red''], SetV [''a'', ''b'']])],
           mqActivation = None, ngStyle = Undefined\<rparr>
   \<and> Obj (extendObject Map.empty [Obj [''color'' \<mapsto> ''red''], SetV [''a'', ''b'']]) \<noteq> SetV [''a'', ''b'']"
  by (simp add: cacheInput_def adapter_cacheInput_def js_get_def)

section \<open>Construction\<close>

lemma dom_fold_obj_set:
  "dom (foldl (\<lambda>m (key, val). obj_set m key val) m es) =
     dom m \<union> {k. \<exists>v. (k, v) \<in> set es \<and> k \<noteq> ''__proto__''}"
proof (induction es arbitrary: m)
  case Nil
  show ?case by simp
next
  case (Cons e es)
  obtain k v where e: "e = (k, v)" by (cases e)
  show ?case
    unfolding e foldl_Cons prod.case Cons.IH
    by (auto simp: obj_set_def)
qed

lemma set_map_filter_eq: "set (List.map_filter f xs) = {y. \<exists>x \<in> set xs. f x = Some y}"
  by (induction xs) (auto split: option.splits)

lemma new_StyleDirective_Str:
  "buildStyleMap (Str value) = Inr (Obj m) \<Longrightarrow>
   new_StyleDirective (Str value) =
     Inr \<lparr>inputMap = [''style'' \<mapsto> Obj m], mqActivation = None, ngStyle = Undefined\<rparr>"
  by (simp add: new_StyleDirective_def cacheInput_merge buildAdapter_def adapter_new_def js_get_def
      del: buildStyleMap.simps)

text \<open>
  Claim C10 (initial base seeding), as the claim states it, fails: an element whose
  inline style attribute holds no declaration, such as \<^verbatim>\<open>style="color"\<close>, is
  constructed with an empty base map.
\<close>

theorem inline_style_without_declaration:
  "new_StyleDirective (Str ''color'') =
     Inr \<lparr>inputMap = [''style'' \<mapsto> Obj Map.empty], mqActivation = None, ngStyle = Undefined\<rparr>"
  by (simp add: new_StyleDirective_def buildAdapter_def adapter_new_def cache_defs parser_defs)

lemma js_replace_absent: "p \<notin> set s \<Longrightarrow> js_replace p r s = s"
  by (induction s) auto

lemma js_replace_chars: "set (js_replace p r s) \<subseteq> set s \<union> set r"
  by (induction s) auto

lemma js_split_chars: "it \<in> set (js_split d s) \<Longrightarrow> set it \<subseteq> set s"
proof (induction s arbitrary: it)
  case Nil
  then show ?case by simp
next
  case (Cons c cs)
  show ?case
  proof (cases "c = d")
    case True
    with Cons show ?thesis by auto
  next
    case False
    show ?thesis
    proof (cases "js_split d cs")
      case Nil
      with False Cons.prems show ?thesis by simp
    next
      case (Cons f fs)
      with False Cons.prems have "it = c # f \<or> it \<in> set fs" by simp
      moreover have "set f \<subseteq> set cs" using Cons.IH [of f] Cons by simp
      moreover have "it \<in> set fs \<Longrightarrow> set it \<subseteq> set cs" using Cons.IH [of it] Cons by simp
      ultimately show ?thesis by auto
    qed
  qed
qed

lemma map_filter_all_None: "\<forall>x \<in> set xs. f x = None \<Longrightarrow> List.map_filter f xs = []"
  by (induction xs) simp_all

text \<open>A text without a colon has no fragment with a colon, so no fragment yields an entry.\<close>

lemma no_colon_no_entry:
  assumes "CHR '':'' \<notin> set value"
  shows "List.map_filter styleEntry (fragments value) = []"
proof (rule map_filter_all_None, rule ballI)
  fix it assume "it \<in> set (fragments value)"
  then have "set it \<subseteq> set (js_replace CHR '','' '';'' value)"
    unfolding fragments_def by (rule js_split_chars)
  also have "\<dots> \<subseteq> set value \<union> set '';''" by (rule js_replace_chars)
  finally have "CHR '':'' \<notin> set it" using assms by auto
  then show "styleEntry it = None" by (rule styleEntry_no_colon)
qed

text \<open>
  Claim C10, amended. The constructor caches the element's inline style as the base
  input: the initial base map is the parse of the attribute's text. It is non-empty
  whenever the text, free of commas, has a fragment \<^verbatim>\<open>name:value\<close> with a single
  colon, a value that is not empty and an unquoted name other than \<^verbatim>\<open>__proto__\<close>
  (the trimmed name is then a property of the base map); it is empty when the text
  has no colon at all.
\<close>

theorem initial_base_seeding:
  "\<exists>m. buildStyleMap (Str value) = Inr (Obj m)
     \<and> new_StyleDirective (Str value) =
           Inr \<lparr>inputMap = [''style'' \<mapsto> Obj m], mqActivation = None, ngStyle = Undefined\<rparr>
     \<and> (CHR '','' \<notin> set value \<and> it \<in> set (js_split CHR '';'' value)
          \<and> js_split CHR '':'' it = [name, val] \<and> val \<noteq> []
          \<and> CHR 0x27 \<notin> set name \<and> js_trim name \<noteq> ''__proto__''
          \<longrightarrow> js_trim name \<in> dom m \<and> m \<noteq> Map.empty)
     \<and> (CHR '':'' \<notin> set value \<longrightarrow> m = Map.empty)"
proof -
  let ?es = "List.map_filter styleEntry (fragments value)"
  let ?m = "foldl (\<lambda>m (key, val). obj_set m key val) Map.empty ?es"
  have p: "buildStyleMap (Str value) = Inr (Obj ?m)" by (rule buildStyleMap_Str)
  have d: "dom ?m = {k. \<exists>v. (k, v) \<in> set ?es \<and> k \<noteq> ''__proto__''}"
    by (simp add: dom_fold_obj_set)
  have A: "CHR '','' \<notin> set value \<and> it \<in> set (js_split CHR '';'' value)
          \<and> js_split CHR '':'' it = [name, val] \<and> val \<noteq> []
          \<and> CHR 0x27 \<notin> set name \<and> js_trim name \<noteq> ''__proto__''
          \<longrightarrow> js_trim name \<in> dom ?m \<and> ?m \<noteq> Map.empty"
  proof
    assume h: "CHR '','' \<notin> set value \<and> it \<in> set (js_split CHR '';'' value)
          \<and> js_split CHR '':'' it = [name, val] \<and> val \<noteq> []
          \<and> CHR 0x27 \<notin> set name \<and> js_trim name \<noteq> ''__proto__''"
    then have f: "it \<in> set (fragments value)"
      by (simp add: fragments_def js_replace_absent)
    from h have "styleEntry it = Some (js_trim name, js_trim val)"
      by (simp add: styleEntry_def js_replace_absent)
    with f have "(js_trim name, js_trim val) \<in> set ?es"
      by (auto simp: set_map_filter_eq)
    with h have "js_trim name \<in> dom ?m" unfolding d by blast
    then show "js_trim name \<in> dom ?m \<and> ?m \<noteq> Map.empty" by auto
  qed
  have B: "CHR '':'' \<notin> set value \<longrightarrow> ?m = Map.empty"
    by (simp add: no_colon_no_entry)
  from p new_StyleDirective_Str [OF p] A B show ?thesis by blast
qed

text \<open>
  The inline style \<^verbatim>\<open>"color: red; display"\<close> seeds the base map
  \<^verbatim>\<open>{color: "red"}\<close>; the inline style \<^verbatim>\<open>"color"\<close> seeds the empty map.
\<close>

theorem initial_base_seeding_witness:
  "CHR '','' \<notin> set ''color: red; display''
   \<and> ''color: red'' \<in> set (js_split CHR '';'' ''color: red; display'')
   \<and> js_split CHR '':'' ''color: red'' = [''color'', '' red'']
   \<and> CHR 0x27 \<notin> set ''color'' \<and> js_trim ''color'' = ''color''
   \<and> new_StyleDirective (Str ''color: red; display'') =
       Inr \<lparr>inputMap = [''style'' \<mapsto> Obj [''color'' \<mapsto> ''red'']], mqActivation = None, ngStyle = Undefined\<rparr>
   \<and> ''color'' \<in> dom [''color'' \<mapsto> ''red'']
   \<and> CHR '':'' \<notin> set ''color''
   \<and> new_StyleDirective (Str ''color'') =
       Inr \<lparr>inputMap = [''style'' \<mapsto> Obj Map.empty], mqActivation = None, ngStyle = Undefined\<rparr>"
proof -
  have c: "CHR '','' \<notin> set ''color: red; display''" by simp
  have f: "''color: red'' \<in> set (js_split CHR '';'' ''color: red; display'')" by simp
  have e: "js_split CHR '':'' ''color: red'' = [''color'', '' red'']" by simp
  have q: "CHR 0x27 \<notin> set ''color''" by simp
  have t: "js_trim ''color'' = ''color''" by (simp add: js_trim_def is_ws_def)
  have b: "buildStyleMap (Str ''color: red; display'') = Inr (Obj [''color'' \<mapsto> ''red''])"
    by (simp add: parser_defs)
  have n: "CHR '':'' \<notin> set ''color''" by simp
  from initial_base_seeding [of "''color: red; display''" "''color: red''" "''color''" "'' red''"]
    c f e q t b
  have 1: "new_StyleDirective (Str ''color: red; display'') =
       Inr \<lparr>inputMap = [''style'' \<mapsto> Obj [''color'' \<mapsto> ''red'']], mqActivation = None, ngStyle = Undefined\<rparr>"
    and 2: "''color'' \<in> dom [''color'' \<mapsto> ''red'']"
    by auto
  from initial_base_seeding [of "''color''"] n
  have 3: "new_StyleDirective (Str ''color'') =
       Inr \<lparr>inputMap = [''style'' \<mapsto> Obj Map.empty], mqActivation = None, ngStyle = Undefined\<rparr>"
    by auto
  from c f e q t n 1 2 3 show ?thesis by simp
qed

section \<open>Activation\<close>

lemma activatedInputKey_append:
  "activatedInputKey b (xs @ ys) c found = activatedInputKey b ys c (activatedInputKey b xs c found)"
  by (induction xs arbitrary: found) simp_all

lemma activatedInputKey_none_eligible:
  "\<forall>bp \<in> set bps. \<not> (matches bp \<and> c (b @ suffix bp) \<noteq> None) \<Longrightarrow>
   activatedInputKey b bps c found = found"
  by (induction bps arbitrary: found) auto

text \<open>
  The pass returns the key of the last breakpoint of the list that matches and has a
  cached value.
\<close>

lemma activatedInputKey_last_eligible:
  assumes i: "i < length bps"
    and e: "matches (bps ! i)" "c (b @ suffix (bps ! i)) \<noteq> None"
    and later: "\<forall>j. i < j \<and> j < length bps \<longrightarrow> \<not> (matches (bps ! j) \<and> c (b @ suffix (bps ! j)) \<noteq> None)"
  shows "activatedInputKey b bps c found = Some (b @ suffix (bps ! i))"
proof -
  have split: "bps = take i bps @ [bps ! i] @ drop (Suc i) bps"
    using i by (simp add: id_take_nth_drop)
  have rest: "\<forall>bp \<in> set (drop (Suc i) bps). \<not> (matches bp \<and> c (b @ suffix bp) \<noteq> None)"
  proof
    fix bp assume "bp \<in> set (drop (Suc i) bps)"
    then obtain n where n: "n < length (drop (Suc i) bps)" "bp = drop (Suc i) bps ! n"
      by (auto simp: in_set_conv_nth)
    then have "bp = bps ! (Suc i + n)" "Suc i + n < length bps" by auto
    with later show "\<not> (matches bp \<and> c (b @ suffix bp) \<noteq> None)" by auto
  qed
  have "activatedInputKey b bps c found =
        activatedInputKey b (drop (Suc i) bps) c
          (activatedInputKey b [bps ! i] c (activatedInputKey b (take i bps) c found))"
    by (subst split) (simp only: activatedInputKey_append)
  also have "\<dots> = activatedInputKey b [bps ! i] c (activatedInputKey b (take i bps) c found)"
    by (rule activatedInputKey_none_eligible [OF rest])
  also have "\<dots> = Some (b @ suffix (bps ! i))"
    using e by simp
  finally show ?thesis .
qed

lemma cacheInputs_dom:
  "cacheInputs d calls = Inr d' \<Longrightarrow> dom (inputMap d') = dom (inputMap d) \<union> fst ` set calls"
proof (induction calls arbitrary: d)
  case Nil
  then show ?case by simp
next
  case (Cons call calls)
  obtain key src where c: "call = (key, src)" by (cases call)
  obtain d1 where d1: "cacheInput d key src True True = Inr d1"
    using cacheInput_total by blast
  with Cons.prems c have "cacheInputs d1 calls = Inr d'" by simp
  from Cons.IH [OF this] cacheInput_dom [OF d1] c show ?case by auto
qed

lemma ngStyle_onMediaQueryChange:
  "mqActivation d = Some a \<Longrightarrow>
   ngStyle (onMediaQueryChange d monitor changesValue) = activatedInput a monitor (inputMap d)"
  by (simp add: onMediaQueryChange_def updateStyle_def)

text \<open>
  Claim C1 (activation fallback). For a directive that listens for viewport changes,
  handling a change sets the style to the cached value of the most specific (last
  registered) breakpoint that matches and has a cached input; when no matching
  breakpoint has a cached input, to the cached base map. In particular, after any run
  of cache calls that covers the base and \<^verbatim>\<open>xs\<close>, both are cached, the style is the
  \<^verbatim>\<open>xs\<close> map while \<^verbatim>\<open>Xs\<close> matches, and the base map once no breakpoint matches.
\<close>

theorem activation_fallback:
  assumes "mqActivation d = Some a"
  shows "(\<forall>i v. i < length monitor \<and> matches (monitor ! i)
              \<and> inputMap d (baseKey a @ suffix (monitor ! i)) = Some v
              \<and> (\<forall>j. i < j \<and> j < length monitor \<longrightarrow>
                     \<not> (matches (monitor ! j) \<and> inputMap d (baseKey a @ suffix (monitor ! j)) \<noteq> None))
            \<longrightarrow> ngStyle (onMediaQueryChange d monitor changesValue) = v)
       \<and> ((\<forall>bp \<in> set monitor. \<not> (matches bp \<and> inputMap d (baseKey a @ suffix bp) \<noteq> None)) \<longrightarrow>
            (\<forall>base. inputMap d (baseKey a) = Some base \<longrightarrow>
               ngStyle (onMediaQueryChange d monitor changesValue) = base))
       \<and> (\<forall>d0 calls.
             cacheInputs d0 calls = Inr d \<and> ''style'' \<in> fst ` set calls \<and> ''styleXs'' \<in> fst ` set calls
             \<and> baseKey a = ''style'' \<longrightarrow>
               (\<exists>xs base. inputMap d ''styleXs'' = Some xs \<and> inputMap d ''style'' = Some base
                 \<and> ngStyle (onMediaQueryChange d
                      [\<lparr>suffix = ''Xs'', matches = True\<rparr>, \<lparr>suffix = ''GtMd'', matches = False\<rparr>]
                      changesValue) = xs
                 \<and> ngStyle (onMediaQueryChange d
                      [\<lparr>suffix = ''Xs'', matches = False\<rparr>, \<lparr>suffix = ''GtMd'', matches = False\<rparr>]
                      changesValue) = base))"
proof -
  note ng = ngStyle_onMediaQueryChange [OF assms]
  have A: "\<forall>i v. i < length monitor \<and> matches (monitor ! i)
              \<and> inputMap d (baseKey a @ suffix (monitor ! i)) = Some v
              \<and> (\<forall>j. i < j \<and> j < length monitor \<longrightarrow>
                     \<not> (matches (monitor ! j) \<and> inputMap d (baseKey a @ suffix (monitor ! j)) \<noteq> None))
            \<longrightarrow> ngStyle (onMediaQueryChange d monitor changesValue) = v"
  proof (intro allI impI)
    fix i v
    assume h: "i < length monitor \<and> matches (monitor ! i)
              \<and> inputMap d (baseKey a @ suffix (monitor ! i)) = Some v
              \<and> (\<forall>j. i < j \<and> j < length monitor \<longrightarrow>
                     \<not> (matches (monitor ! j) \<and> inputMap d (baseKey a @ suffix (monitor ! j)) \<noteq> None))"
    then have "activatedInputKey (baseKey a) monitor (inputMap d) None = Some (baseKey a @ suffix (monitor ! i))"
      by (intro activatedInputKey_last_eligible) auto
    with h show "ngStyle (onMediaQueryChange d monitor changesValue) = v"
      by (simp add: ng activatedInput_def js_get_def)
  qed
  have B: "(\<forall>bp \<in> set monitor. \<not> (matches bp \<and> inputMap d (baseKey a @ suffix bp) \<noteq> None)) \<longrightarrow>
            (\<forall>base. inputMap d (baseKey a) = Some base \<longrightarrow>
               ngStyle (onMediaQueryChange d monitor changesValue) = base)"
  proof (intro allI impI)
    fix base
    assume n: "\<forall>bp \<in> set monitor. \<not> (matches bp \<and> inputMap d (baseKey a @ suffix bp) \<noteq> None)"
      and b: "inputMap d (baseKey a) = Some base"
    from activatedInputKey_none_eligible [OF n]
    have "activatedInputKey (baseKey a) monitor (inputMap d) None = None" .
    with b show "ngStyle (onMediaQueryChange d monitor changesValue) = base"
      by (simp add: ng activatedInput_def)
  qed
  have C: "\<forall>d0 calls.
             cacheInputs d0 calls = Inr d \<and> ''style'' \<in> fst ` set calls \<and> ''styleXs'' \<in> fst ` set calls
             \<and> baseKey a = ''style'' \<longrightarrow>
               (\<exists>xs base. inputMap d ''styleXs'' = Some xs \<and> inputMap d ''style'' = Some base
                 \<and> ngStyle (onMediaQueryChange d
                      [\<lparr>suffix = ''Xs'', matches = True\<rparr>, \<lparr>suffix = ''GtMd'', matches = False\<rparr>]
                      changesValue) = xs
                 \<and> ngStyle (onMediaQueryChange d
                      [\<lparr>suffix = ''Xs'', matches = False\<rparr>, \<lparr>suffix = ''GtMd'', matches = False\<rparr>]
                      changesValue) = base)"
  proof (intro allI impI)
    fix d0 calls
    assume h: "cacheInputs d0 calls = Inr d \<and> ''style'' \<in> fst ` set calls \<and> ''styleXs'' \<in> fst ` set calls
             \<and> baseKey a = ''style''"
    then have "dom (inputMap d) = dom (inputMap d0) \<union> fst ` set calls"
      using cacheInputs_dom by blast
    with h have "''styleXs'' \<in> dom (inputMap d)" "''style'' \<in> dom (inputMap d)" by auto
    then obtain xs base where c: "inputMap d ''styleXs'' = Some xs" "inputMap d ''style'' = Some base"
      by auto
    with h have "ngStyle (onMediaQueryChange d
                      [\<lparr>suffix = ''Xs'', matches = True\<rparr>, \<lparr>suffix = ''GtMd'', matches = False\<rparr>]
                      changesValue) = xs"
      and "ngStyle (onMediaQueryChange d
                      [\<lparr>suffix = ''Xs'', matches = False\<rparr>, \<lparr>suffix = ''GtMd'', matches = False\<rparr>]
                      changesValue) = base"
      by (simp_all add: ng activatedInput_def js_get_def)
    with c show "\<exists>xs base. inputMap d ''styleXs'' = Some xs \<and> inputMap d ''style'' = Some base
                 \<and> ngStyle (onMediaQueryChange d
                      [\<lparr>suffix = ''Xs'', matches = True\<rparr>, \<lparr>suffix = ''GtMd'', matches = False\<rparr>]
                      changesValue) = xs
                 \<and> ngStyle (onMediaQueryChange d
                      [\<lparr>suffix = ''Xs'', matches = False\<rparr>, \<lparr>suffix = ''GtMd'', matches = False\<rparr>]
                      changesValue) = base"
      by blast
  qed
  from A B C show ?thesis by blast
qed

text \<open>
  A directive constructed on an element without inline style starts to listen and is
  then given the base \<^verbatim>\<open>"color:red"\<close> and, for \<^verbatim>\<open>xs\<close>, \<^verbatim>\<open>"color:blue"\<close>. While
  \<^verbatim>\<open>Xs\<close> matches the style is the \<^verbatim>\<open>xs\<close> map; once nothing matches it is the base map.
\<close>

theorem activation_fallback_witness:
  "new_StyleDirective Null =
     Inr \<lparr>inputMap = [''style'' \<mapsto> Obj Map.empty], mqActivation = None, ngStyle = Undefined\<rparr>
   \<and> cacheInputs (ngOnInit \<lparr>inputMap = [''style'' \<mapsto> Obj Map.empty], mqActivation = None, ngStyle = Undefined\<rparr>)
        [(''style'', Str ''color:red''), (''styleXs'', Str ''color:blue'')] =
     Inr \<lparr>inputMap = [''style'' \<mapsto> Obj [''color'' \<mapsto> ''red''], ''styleXs'' \<mapsto> Obj [''color'' \<mapsto> ''blue'']],
          mqActivation = Some \<lparr>baseKey = ''style'', defaultValue = Str []\<rparr>, ngStyle = Undefined\<rparr>
   \<and> ngStyle (onMediaQueryChange
        \<lparr>inputMap = [''style'' \<mapsto> Obj [''color'' \<mapsto> ''red''], ''styleXs'' \<mapsto> Obj [''color'' \<mapsto> ''blue'']],
          mqActivation = Some \<lparr>baseKey = ''style'', defaultValue = Str []\<rparr>, ngStyle = Undefined\<rparr>
        [\<lparr>suffix = ''Xs'', matches = True\<rparr>, \<lparr>suffix = ''GtMd'', matches = False\<rparr>] Undefined)
       = Obj [''color'' \<mapsto> ''blue'']
   \<and> ngStyle (onMediaQueryChange
        \<lparr>inputMap = [''style'' \<mapsto> Obj [''color'' \<mapsto> ''red''], ''styleXs'' \<mapsto> Obj [''color'' \<mapsto> ''blue'']],
          mqActivation = Some \<lparr>baseKey = ''style'', defaultValue = Str []\<rparr>, ngStyle = Undefined\<rparr>
        [\<lparr>suffix = ''Xs'', matches = False\<rparr>, \<lparr>suffix = ''GtMd'', matches = False\<rparr>] Undefined)
       = Obj [''color'' \<mapsto> ''red'']"
proof -
  let ?init = "\<lparr>inputMap = [''style'' \<mapsto> Obj Map.empty], mqActivation = None, ngStyle = Undefined\<rparr>"
  let ?a = "\<lparr>baseKey = ''style'', defaultValue = Str []\<rparr>"
  let ?d = "\<lparr>inputMap = [''style'' \<mapsto> Obj [''color'' \<mapsto> ''red''], ''styleXs'' \<mapsto> Obj [''color'' \<mapsto> ''blue'']],
          mqActivation = Some ?a, ngStyle = Undefined\<rparr>"
  let ?calls = "[(''style'', Str ''color:red''), (''styleXs'', Str ''color:blue'')]"
  have n: "new_StyleDirective Null = Inr ?init"
    by (simp add: new_StyleDirective_def buildAdapter_def adapter_new_def cache_defs)
  have r: "cacheInputs (ngOnInit ?init) ?calls = Inr ?d"
    by (simp add: ngOnInit_def listenForMediaQueryChanges_def cache_defs parser_defs)
  have l: "mqActivation ?d = Some ?a" by simp
  have k: "''style'' \<in> fst ` set ?calls \<and> ''styleXs'' \<in> fst ` set ?calls \<and> baseKey ?a = ''style''"
    by simp
  from activation_fallback [OF l, of "[]" Undefined] r k
  have "\<exists>xs base. inputMap ?d ''styleXs'' = Some xs \<and> inputMap ?d ''style'' = Some base
          \<and> ngStyle (onMediaQueryChange ?d
               [\<lparr>suffix = ''Xs'', matches = True\<rparr>, \<lparr>suffix = ''GtMd'', matches = False\<rparr>] Undefined) = xs
          \<and> ngStyle (onMediaQueryChange ?d
               [\<lparr>suffix = ''Xs'', matches = False\<rparr>, \<lparr>suffix = ''GtMd'', matches = False\<rparr>] Undefined) = base"
    by blast
  then have "ngStyle (onMediaQueryChange ?d
               [\<lparr>suffix = ''Xs'', matches = True\<rparr>, \<lparr>suffix = ''GtMd'', matches = False\<rparr>] Undefined)
              = Obj [''color'' \<mapsto> ''blue'']"
    and "ngStyle (onMediaQueryChange ?d
               [\<lparr>suffix = ''Xs'', matches = False\<rparr>, \<lparr>suffix = ''GtMd'', matches = False\<rparr>] Undefined)
              = Obj [''color'' \<mapsto> ''red'']"
    by auto
  with n r show ?thesis by simp
qed

end
